theory Spec2Isabelle
  imports Complex_Main "HOL-Library.Multiset"
begin

section \<open>Mention detection in app.py\<close>

text \<open>
  The development follows the methods of the email outlet class of \<^verbatim>\<open>src/app.py\<close>:
  \<^verbatim>\<open>_analyze_tweet\<close> (the detection engine), \<^verbatim>\<open>_get_symbols\<close>,
  \<^verbatim>\<open>_get_stock_proper_name\<close> and \<^verbatim>\<open>_load_data\<close> (the reference catalog).
  Python strings are lists of characters, Python floats are read as the real numbers
  they denote, and the language model \<^verbatim>\<open>self.nlp\<close> is a parameter.
\<close>

subsection \<open>Module constants\<close>

text \<open>
  Line 21 of the module defines \<^verbatim>\<open>PUNCTUATION\<close>, 31 characters:
  0x21 to 0x2F without the hyphen-minus 0x2D, 0x3A to 0x40, 0x5B to 0x60 and 0x7B to 0x7E.
\<close>

definition PUNCTUATION :: string where
  "PUNCTUATION =
     [CHR 0x21, CHR 0x22, CHR 0x23, CHR 0x24, CHR 0x25, CHR 0x26, CHR 0x27, CHR 0x28,
      CHR 0x29, CHR 0x2A, CHR 0x2B, CHR 0x2C, CHR 0x2E, CHR 0x2F,
      CHR 0x3A, CHR 0x3B, CHR 0x3C, CHR 0x3D, CHR 0x3E, CHR 0x3F, CHR 0x40,
      CHR 0x5B, CHR 0x5C, CHR 0x5D, CHR 0x5E, CHR 0x5F, CHR 0x60,
      CHR 0x7B, CHR 0x7C, CHR 0x7D, CHR 0x7E]"

text \<open>
  \<^verbatim>\<open>string.punctuation\<close> of the Python standard library, 32 characters: the same
  ranges with the hyphen-minus 0x2D. It is the constant that line 115 passes to
  \<^verbatim>\<open>str.maketrans\<close>.
\<close>

definition string_punctuation :: string where
  "string_punctuation =
     [CHR 0x21, CHR 0x22, CHR 0x23, CHR 0x24, CHR 0x25, CHR 0x26, CHR 0x27, CHR 0x28,
      CHR 0x29, CHR 0x2A, CHR 0x2B, CHR 0x2C, CHR 0x2D, CHR 0x2E, CHR 0x2F,
      CHR 0x3A, CHR 0x3B, CHR 0x3C, CHR 0x3D, CHR 0x3E, CHR 0x3F, CHR 0x40,
      CHR 0x5B, CHR 0x5C, CHR 0x5D, CHR 0x5E, CHR 0x5F, CHR 0x60,
      CHR 0x7B, CHR 0x7C, CHR 0x7D, CHR 0x7E]"

text \<open>
  Line 22: \<^verbatim>\<open>SIMILARITY_THRESHOLD = 0.80\<close>. Scores are floats and are compared as the
  reals they denote; no float lies strictly between 0.8 and the float nearest to 0.8, so
  on floats the comparison with the literal and the comparison with the real 0.8 agree.
\<close>

definition SIMILARITY_THRESHOLD :: real where
  "SIMILARITY_THRESHOLD = 0.80"

subsection \<open>String operations of the Python runtime\<close>

text \<open>
  \<^verbatim>\<open>s.translate(str.maketrans("", "", d))\<close> deletes from \<^verbatim>\<open>s\<close> every character that
  occurs in \<^verbatim>\<open>d\<close> and keeps the others in order.
\<close>

definition translate_delete :: "string \<Rightarrow> string \<Rightarrow> string" where
  "translate_delete d s = filter (\<lambda>c. c \<notin> set d) s"

text \<open>
  \<^verbatim>\<open>s.split(" ")\<close>: the text is cut at every single space; two spaces in a row, a
  leading or a trailing space give an empty piece, and the empty text gives one empty
  piece.
\<close>

fun split_space :: "string \<Rightarrow> string list" where
  "split_space [] = [[]]"
| "split_space (c # cs) =
     (if c = CHR 0x20 then [] # split_space cs
      else (case split_space cs of
              [] \<Rightarrow> [[c]]
            | w # ws \<Rightarrow> (c # w) # ws))"

text \<open>\<^verbatim>\<open>"".join(xs)\<close> is \<^const>\<open>concat\<close>.\<close>

subsection \<open>The language model\<close>

text \<open>
  What the code uses of \<^verbatim>\<open>self.nlp\<close>: the stop word set
  \<^verbatim>\<open>nlp.Defaults.stop_words\<close>, the texts of the tokens of \<^verbatim>\<open>nlp(text)\<close>, the texts of
  \<^verbatim>\<open>nlp(text).noun_chunks\<close>, and the similarity of two spans of text.
\<close>

record nlp =
  stop_words :: "string set"
  tokens_of :: "string \<Rightarrow> string list"
  noun_chunks :: "string \<Rightarrow> string list"
  similarity :: "string \<Rightarrow> string \<Rightarrow> real"

subsection \<open>The catalog\<close>

record stock =
  Symbol :: string
  Name :: string

text \<open>
  Lines 183 to 193: both methods start from the empty set and add one field of every
  entry.
\<close>

definition get_symbols :: "stock list \<Rightarrow> string set" where
  "get_symbols stock_data = fold (\<lambda>entry symbols. insert (Symbol entry) symbols) stock_data {}"

definition get_stock_proper_name :: "stock list \<Rightarrow> string set" where
  "get_stock_proper_name stock_data =
     fold (\<lambda>entry proper_names. insert (Name entry) proper_names) stock_data {}"

text \<open>
  The attributes of the outlet that detection reads. Python iterates over a set in an
  order that the language leaves open but that is fixed for a set that is not modified;
  the two sets are therefore kept as the lists of their elements in iteration order.
\<close>

record outlet =
  stock_data :: "stock list"
  symbols :: "string list"
  proper_stock_names :: "string list"

definition enumerates :: "string list \<Rightarrow> string set \<Rightarrow> bool" where
  "enumerates xs S \<longleftrightarrow> distinct xs \<and> set xs = S"

text \<open>
  Lines 86 to 88 of the constructor, as a relation: any iteration order of the two sets
  is a possible outcome.
\<close>

definition init_outlet :: "stock list \<Rightarrow> outlet \<Rightarrow> bool" where
  "init_outlet data self \<longleftrightarrow>
     stock_data self = data \<and>
     enumerates (symbols self) (get_symbols data) \<and>
     enumerates (proper_stock_names self) (get_stock_proper_name data)"

text \<open>
  The two reverse lookups are written inline in the mention literals: lines 131 to 137
  join the names of the entries with a given symbol, lines 148 to 154 and 168 to 174 join
  the symbols of the entries with a given name.
\<close>

definition nameFor :: "stock list \<Rightarrow> string \<Rightarrow> string" where
  "nameFor data symbol = concat (map Name (filter (\<lambda>stock. Symbol stock = symbol) data))"

definition symbolFor :: "stock list \<Rightarrow> string \<Rightarrow> string" where
  "symbolFor data proper_name =
     concat (map Symbol (filter (\<lambda>stock. Name stock = proper_name) data))"

subsection \<open>Mentions\<close>

text \<open>
  A mention is a Python dictionary with string keys whose values are strings or a float;
  it is kept as the list of its items in insertion order.
\<close>

datatype pyval = Str string | Float real

type_synonym mention = "(string \<times> pyval) list"

definition symbol_mention :: "stock list \<Rightarrow> string \<Rightarrow> string \<Rightarrow> real \<Rightarrow> mention" where
  "symbol_mention data symbol token sim =
     [(''Symbol'', Str symbol),
      (''SymbolToken'', Str token),
      (''Score'', Float sim),
      (''ProperName'', Str (nameFor data symbol))]"

definition name_mention :: "stock list \<Rightarrow> string \<Rightarrow> string \<Rightarrow> real \<Rightarrow> mention" where
  "name_mention data proper_name token sim =
     [(''Symbol'', Str (symbolFor data proper_name)),
      (''ProperName'', Str proper_name),
      (''NameToken'', Str token),
      (''Score'', Float sim)]"

definition chunk_mention :: "stock list \<Rightarrow> string \<Rightarrow> string \<Rightarrow> real \<Rightarrow> mention" where
  "chunk_mention data proper_name chunk sim =
     [(''Symbol'', Str (symbolFor data proper_name)),
      (''ProperName'', Str proper_name),
      (''WordChunk'', Str chunk),
      (''Score'', Float sim)]"

subsection \<open>Detection\<close>

text \<open>
  Line 115 replaces the text by its punctuation-free form; lines 118 and 119 split that
  form at spaces and drop the stop words.
\<close>

definition strip_punctuation :: "string \<Rightarrow> string" where
  "strip_punctuation tweet = translate_delete string_punctuation tweet"

definition tweet_tokens :: "nlp \<Rightarrow> string \<Rightarrow> string list" where
  "tweet_tokens model tweet =
     filter (\<lambda>word. word \<notin> stop_words model) (split_space tweet)"

text \<open>
  Lines 120 to 139: every filtered token against every symbol. Each loop appends to the
  list \<^verbatim>\<open>mentions\<close>, which is threaded through as the accumulator.
\<close>

definition symbol_pass ::
  "nlp \<Rightarrow> outlet \<Rightarrow> string list \<Rightarrow> mention list \<Rightarrow> mention list" where
  "symbol_pass model self toks mentions =
     fold (\<lambda>token mentions.
       fold (\<lambda>symbol mentions.
         let sim = similarity model symbol token in
         if sim \<ge> SIMILARITY_THRESHOLD
         then mentions @ [symbol_mention (stock_data self) symbol token sim]
         else mentions)
       (symbols self) mentions)
     toks mentions"

text \<open>Lines 141 to 159: every token of the parsed text against every proper name.\<close>

definition name_pass ::
  "nlp \<Rightarrow> outlet \<Rightarrow> string list \<Rightarrow> mention list \<Rightarrow> mention list" where
  "name_pass model self doc mentions =
     fold (\<lambda>token mentions.
       fold (\<lambda>proper_name mentions.
         let sim = similarity model token proper_name in
         if sim \<ge> SIMILARITY_THRESHOLD
         then mentions @ [name_mention (stock_data self) proper_name token sim]
         else mentions)
       (proper_stock_names self) mentions)
     doc mentions"

text \<open>
  Lines 160 to 179: every noun chunk of more than one space-separated word against every
  proper name.
\<close>

definition chunk_pass ::
  "nlp \<Rightarrow> outlet \<Rightarrow> string list \<Rightarrow> mention list \<Rightarrow> mention list" where
  "chunk_pass model self chunks mentions =
     fold (\<lambda>chunk mentions.
       if length (split_space chunk) > 1
       then fold (\<lambda>proper_name mentions.
              let sim = similarity model chunk proper_name in
              if sim \<ge> SIMILARITY_THRESHOLD
              then mentions @ [chunk_mention (stock_data self) proper_name chunk sim]
              else mentions)
            (proper_stock_names self) mentions
       else mentions)
     chunks mentions"

definition analyze_tweet :: "nlp \<Rightarrow> outlet \<Rightarrow> string \<Rightarrow> mention list" where
  "analyze_tweet model self tweet =
     (let tweet = strip_punctuation tweet;
          mentions = symbol_pass model self (tweet_tokens model tweet) [];
          mentions = name_pass model self (tokens_of model tweet) mentions
      in chunk_pass model self (noun_chunks model tweet) mentions)"

subsection \<open>Loading the catalog\<close>

text \<open>
  \<^verbatim>\<open>json.load\<close> returns whatever value the file holds, and lines 183 to 198 check
  nothing about it, so the loader is modelled on untyped JSON values. An object is the
  list of the items of the parsed dictionary, with distinct keys.
\<close>

datatype json =
    JNull
  | JBool bool
  | JNumber real
  | JString string
  | JArray "json list"
  | JObject "(string \<times> json) list"

text \<open>
  What \<^verbatim>\<open>open(filename, "r")\<close> followed by \<^verbatim>\<open>json.load(f)\<close> does with the file behind
  \<^verbatim>\<open>stock_datapath\<close> is decided by the operating system and the standard library: one
  of the two calls raises an exception, or the parsed value comes back. Which files make
  them raise, and what they raise (FileNotFoundError for a missing file,
  UnicodeDecodeError for bytes that do not decode, JSONDecodeError for text that is not
  JSON, ValueError for an integer literal beyond the digit limit, and others), is not
  written in this module, so a source is given by the outcome of the two calls.
\<close>

text \<open>
  Exceptions: the two that the catalog loops raise themselves, and any other one by the
  name of its class.
\<close>

datatype error =
    KeyError string
  | TypeError
  | OtherError string

datatype source = Raises error | Json json

text \<open>
  Lines 195 to 198 catch nothing: an exception of \<^verbatim>\<open>open\<close> or \<^verbatim>\<open>json.load\<close> leaves the
  method as it is, and the parsed value is returned as it is.
\<close>

definition load_data :: "source \<Rightarrow> error + json" where
  "load_data src =
     (case src of
        Raises e \<Rightarrow> Inl e
      | Json data \<Rightarrow> Inr data)"

text \<open>
  \<^verbatim>\<open>for entry in stock_data\<close>: a list gives its elements, a dictionary its keys, a
  string its characters; the other values are not iterable.
\<close>

fun py_iter :: "json \<Rightarrow> error + json list" where
  "py_iter (JArray xs) = Inr xs"
| "py_iter (JObject items) = Inr (map (\<lambda>(k, v). JString k) items)"
| "py_iter (JString s) = Inr (map (\<lambda>c. JString [c]) s)"
| "py_iter _ = Inl TypeError"

text \<open>
  \<^verbatim>\<open>entry["Symbol"]\<close>: a dictionary gives the value or raises KeyError; every other
  value raises TypeError for a string subscript.
\<close>

fun py_getitem :: "json \<Rightarrow> string \<Rightarrow> error + json" where
  "py_getitem (JObject items) key =
     (case map_of items key of None \<Rightarrow> Inl (KeyError key) | Some v \<Rightarrow> Inr v)"
| "py_getitem _ key = Inl TypeError"

text \<open>\<^verbatim>\<open>set.add\<close> raises TypeError for a list or a dictionary, which are not hashable.\<close>

fun py_hashable :: "json \<Rightarrow> bool" where
  "py_hashable (JArray xs) = False"
| "py_hashable (JObject items) = False"
| "py_hashable _ = True"

text \<open>
  Python's \<^verbatim>\<open>==\<close> on the hashable JSON values: structural, except that \<^verbatim>\<open>True\<close> equals 1
  and \<^verbatim>\<open>False\<close> equals 0. \<^verbatim>\<open>set.add\<close> leaves the set as it is when it holds an equal
  element already.
\<close>

fun py_eq :: "json \<Rightarrow> json \<Rightarrow> bool" where
  "py_eq (JBool b) (JNumber n) = (n = (if b then 1 else 0))"
| "py_eq (JNumber n) (JBool b) = (n = (if b then 1 else 0))"
| "py_eq x y = (x = y)"

definition py_add :: "json \<Rightarrow> json set \<Rightarrow> json set" where
  "py_add v S = (if \<exists>x \<in> S. py_eq x v then S else insert v S)"

text \<open>
  The loop of \<^verbatim>\<open>_get_symbols\<close> and of \<^verbatim>\<open>_get_stock_proper_name\<close> on untyped entries,
  for the field \<open>key\<close>.
\<close>

fun add_fields :: "string \<Rightarrow> json list \<Rightarrow> json set \<Rightarrow> error + json set" where
  "add_fields key [] acc = Inr acc"
| "add_fields key (entry # entries) acc =
     (case py_getitem entry key of
        Inl e \<Rightarrow> Inl e
      | Inr v \<Rightarrow>
          if py_hashable v then add_fields key entries (py_add v acc) else Inl TypeError)"

definition collect_field :: "string \<Rightarrow> json \<Rightarrow> error + json set" where
  "collect_field key data =
     (case py_iter data of
        Inl e \<Rightarrow> Inl e
      | Inr entries \<Rightarrow> add_fields key entries {})"

record raw_catalog =
  raw_stock_data :: json
  raw_symbols :: "json set"
  raw_proper_stock_names :: "json set"

text \<open>
  Lines 86 to 88 of the constructor: the three attributes are set in this order, and an
  exception of any step leaves no outlet.
\<close>

definition load_catalog :: "source \<Rightarrow> error + raw_catalog" where
  "load_catalog src =
     (case load_data src of
        Inl e \<Rightarrow> Inl e
      | Inr data \<Rightarrow>
          (case collect_field ''Symbol'' data of
             Inl e \<Rightarrow> Inl e
           | Inr syms \<Rightarrow>
               (case collect_field ''Name'' data of
                  Inl e \<Rightarrow> Inl e
                | Inr names \<Rightarrow>
                    Inr \<lparr>raw_stock_data = data, raw_symbols = syms,
                         raw_proper_stock_names = names\<rparr>)))"

text \<open>A typed entry as the JSON object it is parsed from.\<close>

definition stock_json :: "stock \<Rightarrow> json" where
  "stock_json entry =
     JObject [(''Symbol'', JString (Symbol entry)), (''Name'', JString (Name entry))]"

subsection \<open>Closed forms of the three loops\<close>

text \<open>
  What one token (or chunk) contributes to \<^verbatim>\<open>mentions\<close>: one mention for every catalog
  entry whose similarity reaches the threshold, in catalog iteration order. The lemmas
  \<open>symbol_pass_eq\<close>, \<open>name_pass_eq\<close> and \<open>chunk_pass_eq\<close> below show that the loops
  compute the concatenation of these contributions.
\<close>

definition symbol_hits :: "nlp \<Rightarrow> outlet \<Rightarrow> string \<Rightarrow> mention list" where
  "symbol_hits model self token =
     map (\<lambda>symbol. symbol_mention (stock_data self) symbol token
                     (similarity model symbol token))
       (filter (\<lambda>symbol. similarity model symbol token \<ge> SIMILARITY_THRESHOLD)
          (symbols self))"

definition name_hits :: "nlp \<Rightarrow> outlet \<Rightarrow> string \<Rightarrow> mention list" where
  "name_hits model self token =
     map (\<lambda>proper_name. name_mention (stock_data self) proper_name token
                          (similarity model token proper_name))
       (filter (\<lambda>proper_name. similarity model token proper_name \<ge> SIMILARITY_THRESHOLD)
          (proper_stock_names self))"

definition chunk_hits :: "nlp \<Rightarrow> outlet \<Rightarrow> string \<Rightarrow> mention list" where
  "chunk_hits model self chunk =
     (if length (split_space chunk) > 1
      then map (\<lambda>proper_name. chunk_mention (stock_data self) proper_name chunk
                                (similarity model chunk proper_name))
             (filter (\<lambda>proper_name. similarity model chunk proper_name \<ge> SIMILARITY_THRESHOLD)
                (proper_stock_names self))
      else [])"

subsection \<open>Concrete inputs\<close>

text \<open>
  A small language model for running the code on examples: two stop words, the
  non-empty space-separated words as tokens, the whole non-empty text as its only noun
  chunk, and the similarity that is 1.0 for identical strings and 0.0 otherwise.
\<close>

definition exact_match :: "string \<Rightarrow> string \<Rightarrow> real" where
  "exact_match a b = (if a = b then 1.0 else 0.0)"

definition demo_nlp :: nlp where
  "demo_nlp =
     \<lparr>stop_words = {''is'', ''up''},
      tokens_of = (\<lambda>text. filter (\<lambda>w. w \<noteq> []) (split_space text)),
      noun_chunks = (\<lambda>text. if text = [] then [] else [text]),
      similarity = exact_match\<rparr>"

definition apple_data :: "stock list" where
  "apple_data = [\<lparr>Symbol = ''AAPL'', Name = ''Apple Inc''\<rparr>]"

definition apple_outlet :: outlet where
  "apple_outlet =
     \<lparr>stock_data = apple_data, symbols = [''AAPL''], proper_stock_names = [''Apple Inc'']\<rparr>"

text \<open>Two share classes of one company: two entries with the same name.\<close>

definition alphabet_data :: "stock list" where
  "alphabet_data =
     [\<lparr>Symbol = ''GOOGL'', Name = ''Alphabet Inc''\<rparr>,
      \<lparr>Symbol = ''GOOG'', Name = ''Alphabet Inc''\<rparr>]"

definition alphabet_outlet :: outlet where
  "alphabet_outlet =
     \<lparr>stock_data = alphabet_data, symbols = [''GOOGL'', ''GOOG''],
      proper_stock_names = [''Alphabet Inc'']\<rparr>"



section \<open>Properties\<close>

subsection \<open>The loops as concatenations\<close>

lemma fold_append_if:
  "fold (\<lambda>x acc. if P x then acc @ [f x] else acc) xs acc = acc @ map f (filter P xs)"
  by (induction xs arbitrary: acc) simp_all

lemma fold_append_concat:
  "fold (\<lambda>x acc. acc @ g x) xs acc = acc @ concat (map g xs)"
  by (induction xs arbitrary: acc) simp_all

lemma symbol_pass_eq:
  "symbol_pass model self toks acc = acc @ concat (map (symbol_hits model self) toks)"
  unfolding symbol_pass_def Let_def fold_append_if symbol_hits_def
  by (rule fold_append_concat)

lemma name_pass_eq:
  "name_pass model self doc acc = acc @ concat (map (name_hits model self) doc)"
  unfolding name_pass_def Let_def fold_append_if name_hits_def
  by (rule fold_append_concat)

lemma chunk_pass_eq:
  "chunk_pass model self chunks acc = acc @ concat (map (chunk_hits model self) chunks)"
proof -
  have "chunk_pass model self chunks acc =
          fold (\<lambda>chunk acc. acc @ chunk_hits model self chunk) chunks acc"
    unfolding chunk_pass_def Let_def fold_append_if chunk_hits_def
    by (rule arg_cong[where f="\<lambda>f. fold f chunks acc"]) (auto simp: fun_eq_iff)
  then show ?thesis by (simp add: fold_append_concat)
qed

lemma analyze_tweet_eq:
  "analyze_tweet model self tweet =
     concat (map (symbol_hits model self) (tweet_tokens model (strip_punctuation tweet))) @
     concat (map (name_hits model self) (tokens_of model (strip_punctuation tweet))) @
     concat (map (chunk_hits model self) (noun_chunks model (strip_punctuation tweet)))"
  by (simp add: analyze_tweet_def Let_def symbol_pass_eq name_pass_eq chunk_pass_eq)

text \<open>Every mention of the result comes from exactly one of the three loops.\<close>

lemma hits_cases:
  assumes "m \<in> set (analyze_tweet model self tweet)"
  obtains
    (symbol) symbol token where "symbol \<in> set (symbols self)"
      "token \<in> set (tweet_tokens model (strip_punctuation tweet))"
      "similarity model symbol token \<ge> SIMILARITY_THRESHOLD"
      "m = symbol_mention (stock_data self) symbol token (similarity model symbol token)"
  | (name) proper_name token where "proper_name \<in> set (proper_stock_names self)"
      "token \<in> set (tokens_of model (strip_punctuation tweet))"
      "similarity model token proper_name \<ge> SIMILARITY_THRESHOLD"
      "m = name_mention (stock_data self) proper_name token
             (similarity model token proper_name)"
  | (chunk) proper_name chunk where "proper_name \<in> set (proper_stock_names self)"
      "chunk \<in> set (noun_chunks model (strip_punctuation tweet))"
      "length (split_space chunk) > 1"
      "similarity model chunk proper_name \<ge> SIMILARITY_THRESHOLD"
      "m = chunk_mention (stock_data self) proper_name chunk
             (similarity model chunk proper_name)"
  using assms unfolding analyze_tweet_eq symbol_hits_def name_hits_def chunk_hits_def
  by (auto split: if_splits)

subsection \<open>Splitting and punctuation\<close>

lemma split_space_chars: "w \<in> set (split_space s) \<Longrightarrow> set w \<subseteq> set s"
proof (induction s arbitrary: w)
  case Nil
  then show ?case by simp
next
  case (Cons c cs)
  show ?case
  proof (cases "c = CHR 0x20")
    case True
    with Cons show ?thesis by auto
  next
    case False
    then show ?thesis
    proof (cases "split_space cs")
      case Nil
      with False Cons.prems show ?thesis by simp
    next
      case (Cons v vs)
      with False Cons.prems Cons.IH[of v] Cons.IH[of w] show ?thesis by auto
    qed
  qed
qed

lemma split_space_nonempty: "split_space s \<noteq> []"
  by (induction s) (auto split: list.splits)

lemma punctuation_subset: "set PUNCTUATION \<subseteq> set string_punctuation"
  by (simp add: PUNCTUATION_def string_punctuation_def)

text \<open>The two punctuation constants differ in the hyphen-minus only.\<close>

lemma string_punctuation_eq: "set string_punctuation = insert (CHR 0x2D) (set PUNCTUATION)"
  by (auto simp add: PUNCTUATION_def string_punctuation_def)

lemma strip_punctuation_chars: "set (strip_punctuation s) = set s - set string_punctuation"
  by (auto simp: strip_punctuation_def translate_delete_def)

subsection \<open>A run of the example\<close>

lemma demo_run:
  "analyze_tweet demo_nlp apple_outlet ''AAPL is up today'' =
     [[(''Symbol'', Str ''AAPL''), (''SymbolToken'', Str ''AAPL''),
       (''Score'', Float 1), (''ProperName'', Str ''Apple Inc'')]]"
  by (simp add: analyze_tweet_eq symbol_hits_def name_hits_def chunk_hits_def demo_nlp_def
      apple_outlet_def apple_data_def exact_match_def tweet_tokens_def strip_punctuation_def
      translate_delete_def string_punctuation_def SIMILARITY_THRESHOLD_def symbol_mention_def
      nameFor_def)

subsection \<open>The catalog sets and the reverse lookups\<close>

lemma get_symbols_set: "get_symbols data = Symbol ` set data"
proof -
  have "fold (\<lambda>entry symbols. insert (Symbol entry) symbols) data S = Symbol ` set data \<union> S"
    for S
    by (induction data arbitrary: S) auto
  then show ?thesis by (simp add: get_symbols_def)
qed

lemma get_stock_proper_name_set: "get_stock_proper_name data = Name ` set data"
proof -
  have "fold (\<lambda>entry names. insert (Name entry) names) data S = Name ` set data \<union> S"
    for S
    by (induction data arbitrary: S) auto
  then show ?thesis by (simp add: get_stock_proper_name_def)
qed

lemma enumerates_singleton: "enumerates xs {a} \<Longrightarrow> xs = [a]"
proof -
  assume e: "enumerates xs {a}"
  then have d: "distinct xs" and s: "set xs = {a}" by (simp_all add: enumerates_def)
  from s obtain y ys where xs: "xs = y # ys" by (cases xs) auto
  with s have "y = a" by auto
  moreover from xs d s have "ys = []" by (cases ys) auto
  ultimately show ?thesis using xs by simp
qed

text \<open>With one entry the iteration order is forced.\<close>

lemma init_outlet_appleD:
  assumes "init_outlet apple_data self"
  shows "stock_data self = apple_data" "symbols self = [''AAPL'']"
    "proper_stock_names self = [''Apple Inc'']"
  using assms
  by (simp_all add: init_outlet_def get_symbols_set get_stock_proper_name_set apple_data_def
      enumerates_singleton)

lemma filter_unique:
  assumes "distinct (map f xs)" and "x \<in> set xs"
  shows "filter (\<lambda>y. f y = f x) xs = [x]"
  using assms
proof (induction xs)
  case Nil
  then show ?case by simp
next
  case (Cons a xs)
  show ?case
  proof (cases "a = x")
    case True
    from Cons.prems(1) have "f x \<notin> f ` set xs" using True by simp
    then have "\<forall>y \<in> set xs. f y \<noteq> f x" by (metis imageI)
    then have "filter (\<lambda>y. f y = f x) xs = []" by simp
    with True show ?thesis by simp
  next
    case False
    with Cons.prems have "x \<in> set xs" by simp
    moreover from Cons.prems(1) have "distinct (map f xs)" by simp
    ultimately have IH: "filter (\<lambda>y. f y = f x) xs = [x]" by (rule Cons.IH[rotated])
    from Cons.prems(1) \<open>x \<in> set xs\<close> have "f a \<noteq> f x" by auto
    with IH show ?thesis by simp
  qed
qed

lemma nameFor_unique:
  "distinct (map Symbol data) \<Longrightarrow> entry \<in> set data \<Longrightarrow>
   nameFor data (Symbol entry) = Name entry"
  by (simp add: nameFor_def filter_unique)

lemma symbolFor_unique:
  "distinct (map Name data) \<Longrightarrow> entry \<in> set data \<Longrightarrow>
   symbolFor data (Name entry) = Symbol entry"
  by (simp add: symbolFor_def filter_unique)

lemma nameFor_absent: "symbol \<notin> Symbol ` set data \<Longrightarrow> nameFor data symbol = []"
  by (auto simp: nameFor_def filter_empty_conv)

lemma symbolFor_absent: "proper_name \<notin> Name ` set data \<Longrightarrow> symbolFor data proper_name = []"
  by (auto simp: symbolFor_def filter_empty_conv)

lemma alphabet_run:
  "analyze_tweet demo_nlp alphabet_outlet ''Alphabet Inc'' =
     [[(''Symbol'', Str ''GOOGLGOOG''), (''ProperName'', Str ''Alphabet Inc''),
       (''WordChunk'', Str ''Alphabet Inc''), (''Score'', Float 1)]]"
  by (simp add: analyze_tweet_eq symbol_hits_def name_hits_def chunk_hits_def demo_nlp_def
      alphabet_outlet_def alphabet_data_def exact_match_def tweet_tokens_def
      strip_punctuation_def translate_delete_def string_punctuation_def
      SIMILARITY_THRESHOLD_def chunk_mention_def symbolFor_def)

subsection \<open>The loader\<close>

lemma py_add_string: "py_add (JString s) S = insert (JString s) S"
proof -
  have "py_eq x (JString s) \<longleftrightarrow> x = JString s" for x
    by (cases x) simp_all
  then show ?thesis by (auto simp: py_add_def)
qed

lemma add_fields_missing:
  assumes "JObject items \<in> set entries" and "map_of items key = None"
  shows "\<exists>e. add_fields key entries acc = Inl e"
  using assms
proof (induction entries arbitrary: acc)
  case Nil
  then show ?case by simp
next
  case (Cons entry entries)
  show ?case
  proof (cases "py_getitem entry key")
    case (Inl e)
    then show ?thesis by simp
  next
    case (Inr v)
    with Cons.prems have "JObject items \<in> set entries" by auto
    with Cons.IH Cons.prems(2) have "\<exists>e. add_fields key entries (py_add v acc) = Inl e"
      by blast
    with Inr show ?thesis by simp
  qed
qed

text \<open>The only exceptions of the loop are those of the subscript and of \<^verbatim>\<open>set.add\<close>.\<close>

lemma add_fields_error:
  "add_fields key entries acc = Inl e \<Longrightarrow> e = KeyError key \<or> e = TypeError"
proof (induction entries arbitrary: acc)
  case Nil
  then show ?case by simp
next
  case (Cons entry entries)
  show ?case
  proof (cases "py_getitem entry key")
    case (Inl e')
    with Cons.prems have "e' = e" by simp
    with Inl show ?thesis by (cases entry) (auto split: option.splits)
  next
    case (Inr v)
    with Cons.prems Cons.IH show ?thesis by (auto split: if_splits)
  qed
qed

text \<open>
  On a list of well-typed entries the untyped loader succeeds and computes the sets of
  \<open>get_symbols\<close> and \<open>get_stock_proper_name\<close>.
\<close>

lemma add_fields_typed:
  "add_fields ''Symbol'' (map stock_json data) acc = Inr (JString ` Symbol ` set data \<union> acc)"
  "add_fields ''Name'' (map stock_json data) acc = Inr (JString ` Name ` set data \<union> acc)"
  by (induction data arbitrary: acc) (auto simp: stock_json_def py_add_string)

lemma load_catalog_typed:
  "load_catalog (Json (JArray (map stock_json data))) =
     Inr \<lparr>raw_stock_data = JArray (map stock_json data),
          raw_symbols = JString ` get_symbols data,
          raw_proper_stock_names = JString ` get_stock_proper_name data\<rparr>"
  by (simp add: load_catalog_def load_data_def collect_field_def add_fields_typed
      get_symbols_set get_stock_proper_name_set)

text \<open>Adding 1 to a set that holds \<^verbatim>\<open>True\<close> changes nothing.\<close>

lemma add_fields_true_one:
  "add_fields ''Symbol''
     [JObject [(''Symbol'', JBool True)], JObject [(''Symbol'', JNumber 1)]] {} =
   Inr {JBool True}"
  by (simp add: py_add_def)

subsection \<open>Iteration order\<close>








section \<open>The claims\<close>

text \<open>
  C1. Every mention that \<open>analyze_tweet\<close> returns, from whichever of the three loops,
  carries under the key Score a value that is at least \<open>SIMILARITY_THRESHOLD\<close>, that is
  0.80, for every text, outlet and language model.
\<close>

theorem score_at_least_threshold:
  "\<forall>m \<in> set (analyze_tweet model self tweet).
     \<exists>score. map_of m ''Score'' = Some (Float score) \<and>
             score \<ge> SIMILARITY_THRESHOLD \<and> score \<ge> 0.80"
proof
  fix m assume "m \<in> set (analyze_tweet model self tweet)"
  then show "\<exists>score. map_of m ''Score'' = Some (Float score) \<and>
                     score \<ge> SIMILARITY_THRESHOLD \<and> score \<ge> 0.80"
    by (cases rule: hits_cases)
       (simp_all add: symbol_mention_def name_mention_def chunk_mention_def
          SIMILARITY_THRESHOLD_def)
qed

theorem score_at_least_threshold_witness:
  "[(''Symbol'', Str ''AAPL''), (''SymbolToken'', Str ''AAPL''),
    (''Score'', Float 1), (''ProperName'', Str ''Apple Inc'')]
     \<in> set (analyze_tweet demo_nlp apple_outlet ''AAPL is up today'') \<and>
   (\<exists>score. map_of [(''Symbol'', Str ''AAPL''), (''SymbolToken'', Str ''AAPL''),
                    (''Score'', Float 1), (''ProperName'', Str ''Apple Inc'')] ''Score''
              = Some (Float score) \<and>
            score \<ge> SIMILARITY_THRESHOLD \<and> score \<ge> 0.80)"
  using score_at_least_threshold [of demo_nlp apple_outlet "''AAPL is up today''"]
  by (simp add: demo_run)

text \<open>
  C2. The claim is that normalisation deletes the characters of \<open>PUNCTUATION\<close> and keeps
  every other character, the hyphen among them. Line 115 deletes the characters of
  \<open>string_punctuation\<close> instead, so the hyphen of a text is lost.
\<close>

theorem strip_punctuation_drops_hyphen: "strip_punctuation ''BRK-B'' = ''BRKB''"
  by (simp add: strip_punctuation_def translate_delete_def string_punctuation_def)

text \<open>
  C3, as claimed: every mention has five fields, one of them a strategy field. The
  mention of the example run has the four keys Symbol, SymbolToken, Score and ProperName
  and no other.
\<close>

theorem mention_has_four_keys:
  "map (map fst) (analyze_tweet demo_nlp apple_outlet ''AAPL is up today'') =
     [[''Symbol'', ''SymbolToken'', ''Score'', ''ProperName'']]"
  by (simp add: demo_run)

text \<open>
  C3, amended: every mention that \<open>analyze_tweet\<close> returns is a dictionary of exactly
  four items, in one of three shapes. All three have a string under Symbol, a string
  under ProperName and a float under Score; the fourth item holds the matched text, under
  the key SymbolToken for a filtered token (first loop), NameToken for a token of the
  parsed text (second loop) or WordChunk for a noun chunk (third loop). No item names the
  strategy; only the name of the fourth key tells the loops apart.
\<close>

theorem mention_shape:
  "\<forall>m \<in> set (analyze_tweet model self tweet).
     (\<exists>symbol token score proper_name.
        token \<in> set (tweet_tokens model (strip_punctuation tweet)) \<and>
        m = [(''Symbol'', Str symbol), (''SymbolToken'', Str token),
             (''Score'', Float score), (''ProperName'', Str proper_name)]) \<or>
     (\<exists>symbol token score proper_name.
        token \<in> set (tokens_of model (strip_punctuation tweet)) \<and>
        m = [(''Symbol'', Str symbol), (''ProperName'', Str proper_name),
             (''NameToken'', Str token), (''Score'', Float score)]) \<or>
     (\<exists>symbol chunk score proper_name.
        chunk \<in> set (noun_chunks model (strip_punctuation tweet)) \<and>
        m = [(''Symbol'', Str symbol), (''ProperName'', Str proper_name),
             (''WordChunk'', Str chunk), (''Score'', Float score)])"
proof
  fix m assume "m \<in> set (analyze_tweet model self tweet)"
  then show "(\<exists>symbol token score proper_name.
        token \<in> set (tweet_tokens model (strip_punctuation tweet)) \<and>
        m = [(''Symbol'', Str symbol), (''SymbolToken'', Str token),
             (''Score'', Float score), (''ProperName'', Str proper_name)]) \<or>
     (\<exists>symbol token score proper_name.
        token \<in> set (tokens_of model (strip_punctuation tweet)) \<and>
        m = [(''Symbol'', Str symbol), (''ProperName'', Str proper_name),
             (''NameToken'', Str token), (''Score'', Float score)]) \<or>
     (\<exists>symbol chunk score proper_name.
        chunk \<in> set (noun_chunks model (strip_punctuation tweet)) \<and>
        m = [(''Symbol'', Str symbol), (''ProperName'', Str proper_name),
             (''WordChunk'', Str chunk), (''Score'', Float score)])"
  proof (cases rule: hits_cases)
    case (symbol symbol token)
    then show ?thesis unfolding symbol_mention_def by blast
  next
    case (name proper_name token)
    then show ?thesis unfolding name_mention_def by blast
  next
    case (chunk proper_name chunk)
    then show ?thesis unfolding chunk_mention_def by blast
  qed
qed

theorem mention_shape_witness:
  "[(''Symbol'', Str ''GOOGLGOOG''), (''ProperName'', Str ''Alphabet Inc''),
    (''WordChunk'', Str ''Alphabet Inc''), (''Score'', Float 1)]
     \<in> set (analyze_tweet demo_nlp alphabet_outlet ''Alphabet Inc'') \<and>
   ''Alphabet Inc'' \<in> set (noun_chunks demo_nlp (strip_punctuation ''Alphabet Inc''))"
proof -
  let ?m = "[(''Symbol'', Str ''GOOGLGOOG''), (''ProperName'', Str ''Alphabet Inc''),
    (''WordChunk'', Str ''Alphabet Inc''), (''Score'', Float 1)]"
  have in_run: "?m \<in> set (analyze_tweet demo_nlp alphabet_outlet ''Alphabet Inc'')"
    by (simp add: alphabet_run)
  with mention_shape [of demo_nlp alphabet_outlet "''Alphabet Inc''"]
  have "''Alphabet Inc'' \<in> set (noun_chunks demo_nlp (strip_punctuation ''Alphabet Inc''))"
    by fastforce
  with in_run show ?thesis by simp
qed

text \<open>
  C4, as claimed: with the single entry AAPL, Apple Inc and the similarity that is 1.0 for
  identical strings and 0.0 otherwise, the one mention for "AAPL is up today" has the
  strategy TOKEN_VS_SYMBOL and the matched text AAPL as items. The one mention of that
  run has no item under a key strategy and none under a key matchedText.
\<close>

theorem single_mention_has_no_strategy:
  "map (\<lambda>m. (map_of m ''strategy'', map_of m ''matchedText''))
     (analyze_tweet demo_nlp apple_outlet ''AAPL is up today'') = [(None, None)]"
  by (simp add: demo_run)

text \<open>
  C4, amended: the catalog holds the single entry AAPL, Apple Inc, the similarity is 1.0
  for identical strings and 0.0 otherwise, AAPL is not a stop word of the language model,
  and the language model does not give the string "Apple Inc" as a token or as a noun
  chunk of either text. Then \<open>analyze_tweet\<close> on "AAPL is up today" returns exactly one
  mention, the four-item dictionary of the first loop with Symbol AAPL, SymbolToken AAPL,
  Score 1.0 and ProperName Apple Inc, and on "nothing relevant" it returns no mention.
\<close>

theorem single_instrument_example:
  assumes "similarity model = exact_match"
    and "init_outlet apple_data self"
    and "''AAPL'' \<notin> stop_words model"
    and "''Apple Inc'' \<notin> set (tokens_of model ''AAPL is up today'')"
    and "''Apple Inc'' \<notin> set (noun_chunks model ''AAPL is up today'')"
    and "''Apple Inc'' \<notin> set (tokens_of model ''nothing relevant'')"
    and "''Apple Inc'' \<notin> set (noun_chunks model ''nothing relevant'')"
  shows "analyze_tweet model self ''AAPL is up today'' =
           [[(''Symbol'', Str ''AAPL''), (''SymbolToken'', Str ''AAPL''),
             (''Score'', Float 1), (''ProperName'', Str ''Apple Inc'')]] \<and>
         analyze_tweet model self ''nothing relevant'' = []"
proof -
  note o = init_outlet_appleD[OF assms(2)]
  have strip1: "strip_punctuation ''AAPL is up today'' = ''AAPL is up today''"
    and strip2: "strip_punctuation ''nothing relevant'' = ''nothing relevant''"
    by (simp_all add: strip_punctuation_def translate_delete_def string_punctuation_def)
  have nohit: "name_hits model self token = []" if "token \<noteq> ''Apple Inc''" for token
    using that by (simp add: name_hits_def o assms(1) exact_match_def SIMILARITY_THRESHOLD_def)
  have nochunk: "chunk_hits model self chunk = []" if "chunk \<noteq> ''Apple Inc''" for chunk
    using that by (simp add: chunk_hits_def o assms(1) exact_match_def SIMILARITY_THRESHOLD_def)
  have B: "concat (map (name_hits model self) toks) = []" if "''Apple Inc'' \<notin> set toks"
    for toks
    using that nohit by (induction toks) auto
  have C: "concat (map (chunk_hits model self) chunks) = []" if "''Apple Inc'' \<notin> set chunks"
    for chunks
    using that nochunk by (induction chunks) auto
  have symhit: "symbol_hits model self token =
      (if token = ''AAPL''
       then [[(''Symbol'', Str ''AAPL''), (''SymbolToken'', Str ''AAPL''),
              (''Score'', Float 1), (''ProperName'', Str ''Apple Inc'')]]
       else [])" for token
    by (simp add: symbol_hits_def o assms(1) exact_match_def SIMILARITY_THRESHOLD_def
        symbol_mention_def nameFor_def apple_data_def)
  have A1: "concat (map (symbol_hits model self) (tweet_tokens model ''AAPL is up today'')) =
      [[(''Symbol'', Str ''AAPL''), (''SymbolToken'', Str ''AAPL''),
        (''Score'', Float 1), (''ProperName'', Str ''Apple Inc'')]]"
    using assms(3) by (simp add: tweet_tokens_def symhit)
  have A2: "concat (map (symbol_hits model self) (tweet_tokens model ''nothing relevant'')) = []"
    by (simp add: tweet_tokens_def symhit)
  show ?thesis
    by (simp add: analyze_tweet_eq strip1 strip2 A1 A2 B C assms(4-7))
qed

theorem single_instrument_example_witness:
  "analyze_tweet demo_nlp apple_outlet ''AAPL is up today'' =
     [[(''Symbol'', Str ''AAPL''), (''SymbolToken'', Str ''AAPL''),
       (''Score'', Float 1), (''ProperName'', Str ''Apple Inc'')]] \<and>
   analyze_tweet demo_nlp apple_outlet ''nothing relevant'' = []"
proof -
  have 1: "similarity demo_nlp = exact_match" by (simp add: demo_nlp_def)
  have 2: "init_outlet apple_data apple_outlet"
    by (simp add: init_outlet_def apple_outlet_def apple_data_def enumerates_def
        get_symbols_def get_stock_proper_name_def)
  have 3: "''AAPL'' \<notin> stop_words demo_nlp" by (simp add: demo_nlp_def)
  have 4: "''Apple Inc'' \<notin> set (tokens_of demo_nlp ''AAPL is up today'')"
    by (simp add: demo_nlp_def)
  have 5: "''Apple Inc'' \<notin> set (noun_chunks demo_nlp ''AAPL is up today'')"
    by (simp add: demo_nlp_def)
  have 6: "''Apple Inc'' \<notin> set (tokens_of demo_nlp ''nothing relevant'')"
    by (simp add: demo_nlp_def)
  have 7: "''Apple Inc'' \<notin> set (noun_chunks demo_nlp ''nothing relevant'')"
    by (simp add: demo_nlp_def)
  show ?thesis by (rule single_instrument_example[OF 1 2 3 4 5 6 7])
qed

text \<open>
  C5. For every text and language model, no token of the filtered token list of the
  punctuation-free text is a stop word, and no token contains a character of
  \<open>PUNCTUATION\<close>.
\<close>

theorem tokens_clean:
  "\<forall>token \<in> set (tweet_tokens model (strip_punctuation tweet)).
     token \<notin> stop_words model \<and> (\<forall>c \<in> set token. c \<notin> set PUNCTUATION)"
proof (intro ballI conjI)
  fix token c
  assume t: "token \<in> set (tweet_tokens model (strip_punctuation tweet))"
  then show "token \<notin> stop_words model" by (simp add: tweet_tokens_def)
  assume c: "c \<in> set token"
  from t have "token \<in> set (split_space (strip_punctuation tweet))"
    by (simp add: tweet_tokens_def)
  then have "set token \<subseteq> set (strip_punctuation tweet)" by (rule split_space_chars)
  with c have "c \<notin> set string_punctuation" by (auto simp: strip_punctuation_chars)
  with punctuation_subset show "c \<notin> set PUNCTUATION" by blast
qed

theorem tokens_clean_witness:
  "''today'' \<in> set (tweet_tokens demo_nlp (strip_punctuation ''$AAPL is up, today!'')) \<and>
   ''today'' \<notin> stop_words demo_nlp \<and> set ''today'' \<inter> set PUNCTUATION = {}"
proof -
  have "''today'' \<in> set (tweet_tokens demo_nlp (strip_punctuation ''$AAPL is up, today!''))"
    by (simp add: tweet_tokens_def strip_punctuation_def translate_delete_def
        string_punctuation_def demo_nlp_def)
  with tokens_clean [of demo_nlp "''$AAPL is up, today!''"] show ?thesis by blast
qed




text \<open>
  C7, as claimed: looking up the name of a catalog symbol and then the symbol of that
  name gives the symbol back. With two entries of the same name the second lookup joins
  both symbols.
\<close>

theorem round_trip_shared_name:
  "symbolFor alphabet_data (nameFor alphabet_data ''GOOG'') = ''GOOGLGOOG''"
  by (simp add: symbolFor_def nameFor_def alphabet_data_def)

text \<open>
  C7, amended: in a catalog whose symbols are pairwise distinct and whose names are
  pairwise distinct, the symbol of the name of every catalog symbol is that symbol; and
  in every catalog \<open>nameFor\<close> and \<open>symbolFor\<close> return the empty string for a key that
  is absent.
\<close>

theorem round_trip_distinct:
  "(distinct (map Symbol data) \<and> distinct (map Name data) \<longrightarrow>
      (\<forall>symbol \<in> get_symbols data. symbolFor data (nameFor data symbol) = symbol)) \<and>
   (\<forall>symbol. symbol \<notin> get_symbols data \<longrightarrow> nameFor data symbol = '''') \<and>
   (\<forall>proper_name. proper_name \<notin> get_stock_proper_name data \<longrightarrow>
      symbolFor data proper_name = '''')"
proof (intro conjI ballI allI impI)
  fix symbol
  assume d: "distinct (map Symbol data) \<and> distinct (map Name data)"
    and "symbol \<in> get_symbols data"
  then obtain entry where e: "entry \<in> set data" "symbol = Symbol entry"
    by (auto simp: get_symbols_set)
  with d show "symbolFor data (nameFor data symbol) = symbol"
    by (simp add: nameFor_unique symbolFor_unique)
next
  fix symbol assume "symbol \<notin> get_symbols data"
  then show "nameFor data symbol = ''''" by (simp add: get_symbols_set nameFor_absent)
next
  fix proper_name assume "proper_name \<notin> get_stock_proper_name data"
  then show "symbolFor data proper_name = ''''"
    by (simp add: get_stock_proper_name_set symbolFor_absent)
qed

theorem round_trip_distinct_witness:
  "distinct (map Symbol apple_data) \<and> distinct (map Name apple_data) \<and>
   ''AAPL'' \<in> get_symbols apple_data \<and>
   symbolFor apple_data (nameFor apple_data ''AAPL'') = ''AAPL'' \<and>
   ''MSFT'' \<notin> get_symbols alphabet_data \<and> nameFor alphabet_data ''MSFT'' = '''' \<and>
   ''Microsoft'' \<notin> get_stock_proper_name alphabet_data \<and>
   symbolFor alphabet_data ''Microsoft'' = ''''"
proof -
  have d: "distinct (map Symbol apple_data) \<and> distinct (map Name apple_data)"
    by (simp add: apple_data_def)
  have m: "''AAPL'' \<in> get_symbols apple_data" "''MSFT'' \<notin> get_symbols alphabet_data"
     "''Microsoft'' \<notin> get_stock_proper_name alphabet_data"
    by (simp_all add: get_symbols_def get_stock_proper_name_def apple_data_def
        alphabet_data_def)
  from round_trip_distinct[of apple_data] round_trip_distinct[of alphabet_data] d m
  show ?thesis by blast
qed

text \<open>
  C8, as claimed: the empty text has the empty token list. Splitting the empty string at
  spaces gives one empty piece, which the stop word filter keeps.
\<close>

theorem empty_text_has_one_token:
  "tweet_tokens demo_nlp (strip_punctuation '''') = ['''']"
  by (simp add: tweet_tokens_def strip_punctuation_def translate_delete_def demo_nlp_def)

text \<open>
  C8, amended: for the empty text the filtered token list is the single empty token
  (the empty string not being a stop word) and there is no noun chunk of several words;
  when the language model gives no token and no noun chunk for the empty text and scores
  the empty token below the threshold against every catalog symbol, \<open>analyze_tweet\<close>
  returns no mention. No step of the method raises.
\<close>

theorem empty_text_no_mentions:
  assumes "'''' \<notin> stop_words model"
    and "tokens_of model '''' = []"
    and "noun_chunks model '''' = []"
    and "\<forall>symbol \<in> set (symbols self). similarity model symbol '''' < SIMILARITY_THRESHOLD"
  shows "tweet_tokens model (strip_punctuation '''') = [''''] \<and>
         filter (\<lambda>chunk. length (split_space chunk) > 1)
           (noun_chunks model (strip_punctuation '''')) = [] \<and>
         analyze_tweet model self '''' = []"
proof -
  have s: "strip_punctuation '''' = ''''"
    by (simp add: strip_punctuation_def translate_delete_def)
  have t: "tweet_tokens model '''' = ['''']" using assms(1) by (simp add: tweet_tokens_def)
  have "filter (\<lambda>symbol. similarity model symbol '''' \<ge> SIMILARITY_THRESHOLD) (symbols self) = []"
    using assms(4) by (auto simp: filter_empty_conv)
  then have h: "symbol_hits model self '''' = []" by (simp add: symbol_hits_def)
  show ?thesis by (simp add: analyze_tweet_eq s t h assms(2,3))
qed

theorem empty_text_no_mentions_witness:
  "tweet_tokens demo_nlp (strip_punctuation '''') = [''''] \<and>
   filter (\<lambda>chunk. length (split_space chunk) > 1)
     (noun_chunks demo_nlp (strip_punctuation '''')) = [] \<and>
   analyze_tweet demo_nlp apple_outlet '''' = []"
proof -
  have 1: "'''' \<notin> stop_words demo_nlp" by (simp add: demo_nlp_def)
  have 2: "tokens_of demo_nlp '''' = []" by (simp add: demo_nlp_def)
  have 3: "noun_chunks demo_nlp '''' = []" by (simp add: demo_nlp_def)
  have 4: "\<forall>symbol \<in> set (symbols apple_outlet).
             similarity demo_nlp symbol '''' < SIMILARITY_THRESHOLD"
    by (simp add: demo_nlp_def apple_outlet_def exact_match_def SIMILARITY_THRESHOLD_def)
  show ?thesis by (rule empty_text_no_mentions[OF 1 2 3 4])
qed

text \<open>
  C9, as claimed: loading fails with a DataLoadError whenever the source is malformed. A
  file that holds the empty JSON object, and a file whose one record has a number and a
  null in place of the two strings, both load: the constructor gets its three attributes.
\<close>

theorem malformed_sources_load:
  "load_catalog (Json (JObject [])) =
     Inr \<lparr>raw_stock_data = JObject [], raw_symbols = {}, raw_proper_stock_names = {}\<rparr> \<and>
   load_catalog (Json (JArray [JObject [(''Symbol'', JNumber 5), (''Name'', JNull)]])) =
     Inr \<lparr>raw_stock_data = JArray [JObject [(''Symbol'', JNumber 5), (''Name'', JNull)]],
          raw_symbols = {JNumber 5}, raw_proper_stock_names = {JNull}\<rparr>"
  by (simp add: load_catalog_def load_data_def collect_field_def py_add_def)

text \<open>
  C9, amended: setting up the catalog fails whenever \<^verbatim>\<open>open\<close> or \<^verbatim>\<open>json.load\<close> raises, with
  the exception they raise, and it fails with KeyError or TypeError whenever the file
  holds a list in which some record is an object without the key Symbol or without the key
  Name. A failure yields no catalog at all, never one of the well-formed records only.
\<close>

theorem load_fails_atomically:
  "(\<forall>e. load_catalog (Raises e) = Inl e) \<and>
   (\<forall>entries items.
      JObject items \<in> set entries \<and>
      (map_of items ''Symbol'' = None \<or> map_of items ''Name'' = None) \<longrightarrow>
      (\<exists>e. load_catalog (Json (JArray entries)) = Inl e \<and>
           (e = KeyError ''Symbol'' \<or> e = KeyError ''Name'' \<or> e = TypeError)))"
proof (intro conjI allI impI)
  fix e show "load_catalog (Raises e) = Inl e"
    by (simp add: load_catalog_def load_data_def)
next
  fix entries items
  assume a: "JObject items \<in> set entries \<and>
      (map_of items ''Symbol'' = None \<or> map_of items ''Name'' = None)"
  then have mem: "JObject items \<in> set entries" by simp
  from a have "map_of items ''Symbol'' = None \<or> map_of items ''Name'' = None" by simp
  then show "\<exists>e. load_catalog (Json (JArray entries)) = Inl e \<and>
           (e = KeyError ''Symbol'' \<or> e = KeyError ''Name'' \<or> e = TypeError)"
  proof (elim disjE)
    assume 1: "map_of items ''Symbol'' = None"
    from add_fields_missing[OF mem 1]
    obtain e where e: "add_fields ''Symbol'' entries {} = Inl e" by blast
    from add_fields_error[OF e] e show ?thesis
      by (auto simp add: load_catalog_def load_data_def collect_field_def)
  next
    assume 2: "map_of items ''Name'' = None"
    from add_fields_missing[OF mem 2]
    obtain e where e: "add_fields ''Name'' entries {} = Inl e" by blast
    show ?thesis
    proof (cases "add_fields ''Symbol'' entries {}")
      case (Inl e')
      from add_fields_error[OF Inl] Inl show ?thesis
        by (auto simp add: load_catalog_def load_data_def collect_field_def)
    next
      case (Inr syms)
      from add_fields_error[OF e] e Inr show ?thesis
        by (auto simp add: load_catalog_def load_data_def collect_field_def)
    qed
  qed
qed

theorem load_fails_atomically_witness:
  "load_catalog (Raises (OtherError ''UnicodeDecodeError'')) =
     Inl (OtherError ''UnicodeDecodeError'') \<and>
   JObject [(''Symbol'', JString ''MSFT'')] \<in>
     set [stock_json \<lparr>Symbol = ''AAPL'', Name = ''Apple Inc''\<rparr>,
          JObject [(''Symbol'', JString ''MSFT'')]] \<and>
   map_of [(''Symbol'', JString ''MSFT'')] ''Name'' = None \<and>
   load_catalog (Json (JArray [stock_json \<lparr>Symbol = ''AAPL'', Name = ''Apple Inc''\<rparr>,
       JObject [(''Symbol'', JString ''MSFT'')]])) = Inl (KeyError ''Name'')"
proof -
  have "load_catalog (Json (JArray [stock_json \<lparr>Symbol = ''AAPL'', Name = ''Apple Inc''\<rparr>,
       JObject [(''Symbol'', JString ''MSFT'')]])) = Inl (KeyError ''Name'')"
    by (simp add: load_catalog_def load_data_def collect_field_def stock_json_def py_add_def)
  with load_fails_atomically show ?thesis by simp
qed



end
